theory Spec2Isabelle
  imports Main "HOL-Library.Word"
begin

section \<open>JavaScript values as the handlers of server.js see them\<close>

text \<open>
  A JavaScript string is a sequence of 16-bit code units. The literals of the source are
  ASCII; \<open>lit\<close> turns an ASCII literal into its code units.
\<close>

type_synonym js_string = "16 word list"

definition lit :: "string \<Rightarrow> js_string" where
  "lit s = map (\<lambda>c. of_nat (of_char c)) s"

text \<open>
  \<open>req.body\<close> is what \<open>express.json()\<close> parsed from the request: a JSON value. A number
  is carried by the text that \<open>Number::toString\<close> gives for it, which is all a handler
  ever observes of a number: its interpolation into a template, and its truthiness
  (JSON has no NaN, so a number is falsy exactly when it is 0 or -0, and both print as
  \<open>0\<close>). An object is the list of its members in the order of the JSON text.
\<close>

datatype json =
    JNull
  | JBool bool
  | JNum js_string
  | JStr js_string
  | JArr "json list"
  | JObj "(js_string \<times> json) list"

text \<open>A JavaScript value read from the body: \<open>None\<close> is \<open>undefined\<close>.\<close>

type_synonym js_value = "json option"

type_synonym body = "(js_string \<times> json) list"

text \<open>
  Reading a property of a parsed object, as the destructuring
  \<open>const { text, fromLang, toLang } = req.body\<close> does. \<open>JSON.parse\<close> keeps the last of
  several members with one name; a name the object does not have reads as \<open>undefined\<close>.
\<close>

definition property :: "(js_string \<times> json) list \<Rightarrow> string \<Rightarrow> js_value" where
  "property obj k = map_of (rev obj) (lit k)"

text \<open>\<open>ToBoolean\<close>: what \<open>!v\<close> and \<open>v || w\<close> test.\<close>

fun truthy :: "js_value \<Rightarrow> bool" where
  "truthy None = False"
| "truthy (Some JNull) = False"
| "truthy (Some (JBool b)) = b"
| "truthy (Some (JNum r)) = (r \<noteq> lit ''0'')"
| "truthy (Some (JStr s)) = (s \<noteq> [])"
| "truthy (Some (JArr xs)) = True"
| "truthy (Some (JObj kvs)) = True"

text \<open>\<open>a || b\<close>\<close>

definition or_else :: "js_value \<Rightarrow> js_value \<Rightarrow> js_value" where
  "or_else a b = (if truthy a then a else b)"

text \<open>
  A thrown \<open>Error\<close>: its \<open>message\<close>, and whether \<open>error.response && error.response.data\<close>
  is truthy (the catch blocks of the first three handlers log it).
\<close>

datatype js_error = JsError (message: js_string) (response_data: bool)

text \<open>
  \<open>ToString\<close>, which a template literal applies to each substitution. An array prints
  its elements separated by commas, \<open>null\<close> elements as nothing. An object without a
  member named \<open>toString\<close> prints as \<open>[object Object]\<close>; with such a member (a JSON value
  is never callable) \<open>OrdinaryToPrimitive\<close> finds no method that yields a primitive and
  throws a \<open>TypeError\<close>.
\<close>

definition cannot_convert :: js_error where
  "cannot_convert = JsError (lit ''Cannot convert object to primitive value'') False"

fun join_comma :: "(js_error + js_string) list \<Rightarrow> js_error + js_string" where
  "join_comma [] = Inr []"
| "join_comma [r] = r"
| "join_comma (r # rs) =
     (case r of
        Inl e \<Rightarrow> Inl e
      | Inr s \<Rightarrow> (case join_comma rs of Inl e \<Rightarrow> Inl e | Inr t \<Rightarrow> Inr (s @ lit '','' @ t)))"

fun ToString :: "json \<Rightarrow> js_error + js_string" where
  "ToString JNull = Inr (lit ''null'')"
| "ToString (JBool b) = Inr (if b then lit ''true'' else lit ''false'')"
| "ToString (JNum r) = Inr r"
| "ToString (JStr s) = Inr s"
| "ToString (JArr xs) =
     join_comma (map (\<lambda>x. case x of JNull \<Rightarrow> Inr [] | _ \<Rightarrow> ToString x) xs)"
| "ToString (JObj kvs) =
     (if property kvs ''toString'' \<noteq> None then Inl cannot_convert
      else Inr (lit ''[object Object]''))"

text \<open>
  A template literal: literal chunks and substitutions, evaluated from left to right; the
  first substitution that throws ends the evaluation.
\<close>

datatype part = Chunk string | Subst js_value

fun substitute :: "js_value \<Rightarrow> js_error + js_string" where
  "substitute None = Inr (lit ''undefined'')"
| "substitute (Some v) = ToString v"

fun template :: "part list \<Rightarrow> js_error + js_string" where
  "template [] = Inr []"
| "template (Chunk s # ps) =
     (case template ps of Inl e \<Rightarrow> Inl e | Inr t \<Rightarrow> Inr (lit s @ t))"
| "template (Subst v # ps) =
     (case substitute v of
        Inl e \<Rightarrow> Inl e
      | Inr s \<Rightarrow> (case template ps of Inl e \<Rightarrow> Inl e | Inr t \<Rightarrow> Inr (s @ t)))"

text \<open>A substitution that does not throw.\<close>

definition converts :: "js_value \<Rightarrow> bool" where
  "converts v = (case substitute v of Inl error \<Rightarrow> False | Inr s \<Rightarrow> True)"

text \<open>
  \<open>String.prototype.trim\<close> removes the code units of \<open>WhiteSpace\<close> and \<open>LineTerminator\<close>
  from both ends.
\<close>

definition white_space :: "16 word \<Rightarrow> bool" where
  "white_space c =
     (c = 0x09 \<or> c = 0x0A \<or> c = 0x0B \<or> c = 0x0C \<or> c = 0x0D \<or> c = 0x20 \<or> c = 0xA0
      \<or> c = 0x1680 \<or> (0x2000 \<le> c \<and> c \<le> 0x200A) \<or> c = 0x2028 \<or> c = 0x2029
      \<or> c = 0x202F \<or> c = 0x205F \<or> c = 0x3000 \<or> c = 0xFEFF)"

definition trim :: "js_string \<Rightarrow> js_string" where
  "trim s = rev (dropWhile white_space (rev (dropWhile white_space s)))"

section \<open>The provider, the effects and the responses\<close>

text \<open>
  What \<open>model.generateContent\<close> is given: the model name that \<open>getGenerativeModel\<close> was
  asked for, the prompt, and for the vision call the image part. \<open>generationConfig\<close> and
  \<open>safetySettings\<close> are the same two constants at every call and are left out.
\<close>

record inline_data =
  data :: js_value
  mimeType :: js_value

record gen_request =
  model :: string
  prompt :: js_string
  image :: "inline_data option"

text \<open>
  The provider is outside the program. It is a parameter: for the n-th generation
  (counted from 0 within one request) and its request it either throws, from
  \<open>generateContent\<close> or from \<open>response.text()\<close>, or gives the raw text.
\<close>

type_synonym provider = "nat \<Rightarrow> gen_request \<Rightarrow> js_error + js_string"

datatype event =
    Generate gen_request
  | SetTimeout nat
  | ConsoleWarn string
  | ConsoleError string

record response =
  status :: nat
  payload :: "(string \<times> js_string) list"

text \<open>
  A handler either sends a response, or throws outside its \<open>try\<close>: then the promise of
  the \<open>async\<close> function is rejected and the handler has sent nothing.
\<close>

datatype outcome = Responded response | Rejected js_error

definition calls :: "event list \<Rightarrow> gen_request list" where
  "calls evs = concat (map (\<lambda>e. case e of Generate r \<Rightarrow> [r] | _ \<Rightarrow> []) evs)"

definition timers :: "event list \<Rightarrow> nat list" where
  "timers evs = concat (map (\<lambda>e. case e of SetTimeout ms \<Rightarrow> [ms] | _ \<Rightarrow> []) evs)"

definition TEXT_MODEL_NAME :: string where
  "TEXT_MODEL_NAME = ''gemini-1.5-flash''"

definition VISION_MODEL_NAME :: string where
  "VISION_MODEL_NAME = ''gemini-1.5-flash-001''"

text \<open>
  The catch blocks: a log line, for the first three handlers a second one when the error
  carries response data, and the 500 response.
\<close>

definition caught :: "string \<Rightarrow> bool \<Rightarrow> string \<Rightarrow> js_error \<Rightarrow> event list \<Rightarrow> outcome \<times> event list" where
  "caught label with_details msg error evs =
     (Responded \<lparr>status = 500,
                 payload = [(''error'', lit msg), (''details'', message error)]\<rparr>,
      evs @ [ConsoleError label]
          @ (if with_details \<and> response_data error
             then [ConsoleError ''Gemini API Error details:''] else []))"

definition bad_request :: "string \<Rightarrow> outcome \<times> event list" where
  "bad_request msg = (Responded \<lparr>status = 400, payload = [(''error'', lit msg)]\<rparr>, [])"

section \<open>The six handlers\<close>

subsection \<open>1. \<open>POST /api/translate\<close>\<close>

definition translate :: "provider \<Rightarrow> body \<Rightarrow> outcome \<times> event list" where
  "translate genAI body =
     (let text = property body ''text'';
          fromLang = property body ''fromLang'';
          toLang = property body ''toLang''
      in if \<not> truthy text \<or> \<not> truthy fromLang \<or> \<not> truthy toLang
         then bad_request ''Missing text, fromLang, or toLang in request.''
         else
           (case template
                   [Chunk ''Translate the following text from '', Subst fromLang,
                    Chunk '' to '', Subst toLang,
                    Chunk ''. Only provide the translated text, nothing else.\<newline>Text: \"'',
                    Subst text, Chunk ''\"''] of
              Inl error \<Rightarrow>
                caught ''Error translating text:'' True
                  ''Failed to translate text. Please check your API key and input.'' error []
            | Inr p \<Rightarrow>
                (let request = \<lparr>model = TEXT_MODEL_NAME, prompt = p, image = None\<rparr> in
                 case genAI 0 request of
                   Inl error \<Rightarrow>
                     caught ''Error translating text:'' True
                       ''Failed to translate text. Please check your API key and input.''
                       error [Generate request]
                 | Inr raw \<Rightarrow>
                     (Responded \<lparr>status = 200, payload = [(''translatedText'', trim raw)]\<rparr>,
                      [Generate request]))))"

subsection \<open>2. \<open>POST /api/summarize\<close>\<close>

text \<open>
  The \<open>switch\<close> on \<open>summaryType\<close> compares with \<open>===\<close>: a case is taken only by the
  string itself. It stands before the \<open>try\<close>.
\<close>

definition summary_prompt :: "js_value \<Rightarrow> js_value \<Rightarrow> part list" where
  "summary_prompt summaryType text =
     (if summaryType = Some (JStr (lit ''brief'')) then
        [Chunk ''Provide a very brief, 1-2 sentence summary of the following text. Only the summary.\<newline>Text: \"'',
         Subst text, Chunk ''\"'']
      else if summaryType = Some (JStr (lit ''detailed'')) then
        [Chunk ''Provide a detailed, 3-5 sentence summary of the following text. Only the summary.\<newline>Text: \"'',
         Subst text, Chunk ''\"'']
      else if summaryType = Some (JStr (lit ''bullets'')) then
        [Chunk ''Summarize the following text into 3-5 key bullet points. Only the bullet points.\<newline>Text: \"'',
         Subst text, Chunk ''\"'']
      else if summaryType = Some (JStr (lit ''key'')) then
        [Chunk ''Extract the absolute 3-5 most important key points from the following text as a numbered list. Only the numbered list.\<newline>Text: \"'',
         Subst text, Chunk ''\"'']
      else
        [Chunk ''Summarize the following text. Only the summary.\<newline>Text: \"'',
         Subst text, Chunk ''\"''])"

definition keyPointsPrompt :: "js_value \<Rightarrow> part list" where
  "keyPointsPrompt text =
     [Chunk ''Extract 3-5 key takeaways from the following text as bullet points:\<newline>\"'',
      Subst text, Chunk ''\"'']"

definition summarize :: "provider \<Rightarrow> body \<Rightarrow> outcome \<times> event list" where
  "summarize genAI body =
     (let text = property body ''text'';
          summaryType = property body ''summaryType''
      in if \<not> truthy text \<or> \<not> truthy summaryType
         then bad_request ''Missing text or summaryType in request.''
         else
           (case template (summary_prompt summaryType text) of
              Inl error \<Rightarrow> (Rejected error, [])
            | Inr p \<Rightarrow>
                (let request = \<lparr>model = TEXT_MODEL_NAME, prompt = p, image = None\<rparr> in
                 case genAI 0 request of
                   Inl error \<Rightarrow>
                     caught ''Error summarizing text:'' True
                       ''Failed to summarize text. Please check your API key and input.''
                       error [Generate request]
                 | Inr raw \<Rightarrow>
                     (let summary = trim raw in
                      if summaryType = Some (JStr (lit ''bullets''))
                         \<or> summaryType = Some (JStr (lit ''key''))
                      then
                        (Responded \<lparr>status = 200,
                                    payload = [(''summary'', summary), (''keyPoints'', summary)]\<rparr>,
                         [Generate request])
                      else
                        (case template (keyPointsPrompt text) of
                           Inl error \<Rightarrow>
                             caught ''Error summarizing text:'' True
                               ''Failed to summarize text. Please check your API key and input.''
                               error [Generate request]
                         | Inr kp \<Rightarrow>
                             (let keyPointsRequest =
                                    \<lparr>model = TEXT_MODEL_NAME, prompt = kp, image = None\<rparr> in
                              case genAI 1 keyPointsRequest of
                                Inl error \<Rightarrow>
                                  caught ''Error summarizing text:'' True
                                    ''Failed to summarize text. Please check your API key and input.''
                                    error [Generate request, Generate keyPointsRequest]
                              | Inr keyPointsRaw \<Rightarrow>
                                  (Responded
                                     \<lparr>status = 200,
                                      payload = [(''summary'', summary),
                                                 (''keyPoints'', trim keyPointsRaw)]\<rparr>,
                                   [Generate request, Generate keyPointsRequest])))))))"

subsection \<open>3. \<open>POST /api/analyze-image\<close>\<close>

definition imageToGenerativePart :: "js_value \<Rightarrow> js_value \<Rightarrow> inline_data" where
  "imageToGenerativePart base64String mime = \<lparr>data = base64String, mimeType = mime\<rparr>"

definition analyze_image :: "provider \<Rightarrow> body \<Rightarrow> outcome \<times> event list" where
  "analyze_image genAI body =
     (let imageData = property body ''imageData''
      in if \<not> truthy imageData
         then bad_request ''Missing image data in request.''
         else
           (let mime = or_else (property body ''imageMimeType'') (Some (JStr (lit ''image/jpeg'')));
                imagePart = imageToGenerativePart imageData mime;
                request =
                  \<lparr>model = VISION_MODEL_NAME,
                   prompt = lit ''Describe this image in detail, including objects, actions, and overall context. Keep the description concise, 2-3 sentences.'',
                   image = Some imagePart\<rparr>
            in case genAI 0 request of
                 Inl error \<Rightarrow>
                   caught ''Error analyzing image:'' True
                     ''Failed to analyze image. Please ensure your API key is correct and the image is valid.''
                     error [Generate request]
               | Inr raw \<Rightarrow>
                   (Responded \<lparr>status = 200, payload = [(''description'', trim raw)]\<rparr>,
                    [Generate request])))"

subsection \<open>4. \<open>POST /api/analyze-audio\<close>\<close>

text \<open>
  Nothing in the \<open>try\<close> of this handler can throw (a timer and two constants), so its
  catch block has no branch here.
\<close>

definition analyze_audio :: "provider \<Rightarrow> body \<Rightarrow> outcome \<times> event list" where
  "analyze_audio genAI body =
     (let audioData = property body ''audioData'' in
      (Responded
         \<lparr>status = 200,
          payload =
            [(''transcription'',
              lit ''This is a simulated transcription of your audio. For real transcription, consider using a dedicated Speech-to-Text API.''),
             (''emotion'',
              lit ''Simulated emotion: Neutral, with hints of curiosity. (Real emotion analysis would be derived from the transcribed text using a language model).'')]\<rparr>,
       (if \<not> truthy audioData
        then [ConsoleWarn ''Received audio analysis request without audio data (likely from placeholder recording).'']
        else [])
       @ [SetTimeout 2500]))"

subsection \<open>5. The resume endpoints\<close>

text \<open>Both build the prompt before the \<open>try\<close>.\<close>

definition resume_generate_summary :: "provider \<Rightarrow> body \<Rightarrow> outcome \<times> event list" where
  "resume_generate_summary genAI body =
     (let existingSummary = property body ''existingSummary'';
          role = property body ''role'';
          experienceLevel = property body ''experienceLevel''
      in case template
                [Chunk ''Generate a concise, impactful professional summary for a '', Subst role,
                 Chunk '' with '', Subst experienceLevel,
                 Chunk '' experience. Incorporate this existing information: \"'',
                 Subst existingSummary,
                 Chunk ''\". Focus on achievements and relevant skills. Keep it to 3-5 sentences.''] of
           Inl error \<Rightarrow> (Rejected error, [])
         | Inr p \<Rightarrow>
             (let request = \<lparr>model = TEXT_MODEL_NAME, prompt = p, image = None\<rparr> in
              case genAI 0 request of
                Inl error \<Rightarrow>
                  caught ''Error generating resume summary:'' False
                    ''Failed to generate summary. Please check your API key.''
                    error [Generate request]
              | Inr raw \<Rightarrow>
                  (Responded \<lparr>status = 200, payload = [(''generatedSummary'', trim raw)]\<rparr>,
                   [Generate request])))"

definition resume_optimize_skills :: "provider \<Rightarrow> body \<Rightarrow> outcome \<times> event list" where
  "resume_optimize_skills genAI body =
     (let currentSkills = property body ''currentSkills'';
          jobDescriptionKeywords = property body ''jobDescriptionKeywords''
      in case template
                [Chunk ''Optimize the following skills for a resume, considering these job requirements/keywords: \"'',
                 Subst jobDescriptionKeywords,
                 Chunk ''\". Suggest 5-10 strong, relevant skills based on \"'',
                 Subst currentSkills,
                 Chunk ''\". Provide as a comma-separated list of skills.''] of
           Inl error \<Rightarrow> (Rejected error, [])
         | Inr p \<Rightarrow>
             (let request = \<lparr>model = TEXT_MODEL_NAME, prompt = p, image = None\<rparr> in
              case genAI 0 request of
                Inl error \<Rightarrow>
                  caught ''Error optimizing skills:'' False
                    ''Failed to optimize skills. Please check your API key.''
                    error [Generate request]
              | Inr raw \<Rightarrow>
                  (Responded \<lparr>status = 200, payload = [(''optimizedSkills'', trim raw)]\<rparr>,
                   [Generate request])))"

subsection \<open>Routing\<close>

datatype operation =
    Translate
  | Summarize
  | AnalyzeImage
  | AnalyzeAudio
  | GenerateResumeSummary
  | OptimizeSkills

fun handle :: "operation \<Rightarrow> provider \<Rightarrow> body \<Rightarrow> outcome \<times> event list" where
  "handle Translate = translate"
| "handle Summarize = summarize"
| "handle AnalyzeImage = analyze_image"
| "handle AnalyzeAudio = analyze_audio"
| "handle GenerateResumeSummary = resume_generate_summary"
| "handle OptimizeSkills = resume_optimize_skills"

subsection \<open>Two tables read off the handlers\<close>

text \<open>The message that each handler's catch block puts into the \<open>error\<close> field.\<close>

fun failure_message :: "operation \<Rightarrow> string" where
  "failure_message Translate = ''Failed to translate text. Please check your API key and input.''"
| "failure_message Summarize = ''Failed to summarize text. Please check your API key and input.''"
| "failure_message AnalyzeImage =
     ''Failed to analyze image. Please ensure your API key is correct and the image is valid.''"
| "failure_message AnalyzeAudio = ''Failed to analyze audio (simulated).''"
| "failure_message GenerateResumeSummary = ''Failed to generate summary. Please check your API key.''"
| "failure_message OptimizeSkills = ''Failed to optimize skills. Please check your API key.''"

text \<open>The fields of \<open>req.body\<close> that each handler reads.\<close>

fun input_fields :: "operation \<Rightarrow> string list" where
  "input_fields Translate = [''text'', ''fromLang'', ''toLang'']"
| "input_fields Summarize = [''text'', ''summaryType'']"
| "input_fields AnalyzeImage = [''imageData'', ''imageMimeType'']"
| "input_fields AnalyzeAudio = [''audioData'']"
| "input_fields GenerateResumeSummary = [''existingSummary'', ''role'', ''experienceLevel'']"
| "input_fields OptimizeSkills = [''currentSkills'', ''jobDescriptionKeywords'']"

section \<open>Sample providers and requests\<close>

text \<open>Concrete providers and request bodies, at which the theorems below are instantiated.\<close>

definition steady_provider :: provider where
  "steady_provider n request = Inr (lit ''  Bonjour \<newline>'')"

definition terse_provider :: provider where
  "terse_provider n request = Inr (lit ''ok'')"

definition numbered_provider :: provider where
  "numbered_provider n request = (if n = 0 then Inr (lit '' first '') else Inr (lit '' second\<newline>''))"

definition quota_error :: js_error where
  "quota_error = JsError (lit ''429 Too Many Requests'') True"

definition failing_provider :: provider where
  "failing_provider n request = Inl quota_error"

definition incomplete_request :: body where
  "incomplete_request =
     [(lit ''text'', JStr (lit ''Hello'')), (lit ''toLang'', JStr (lit ''French''))]"

definition hello_request :: body where
  "hello_request =
     [(lit ''text'', JStr (lit ''Hello'')), (lit ''fromLang'', JStr (lit ''English'')),
      (lit ''toLang'', JStr (lit ''French''))]"

definition png_request :: body where
  "png_request =
     [(lit ''imageData'', JStr (lit ''iVBORw0KGgo='')), (lit ''imageMimeType'', JStr (lit ''image/png''))]"

definition empty_image_request :: body where
  "empty_image_request =
     [(lit ''imageData'', JStr []), (lit ''imageMimeType'', JStr (lit ''image/png''))]"

definition bare_image_request :: body where
  "bare_image_request = [(lit ''imageData'', JStr (lit ''iVBORw0KGgo=''))]"

definition bullets_request :: body where
  "bullets_request =
     [(lit ''text'', JStr (lit ''Hello'')), (lit ''summaryType'', JStr (lit ''bullets''))]"

definition bullets_without_text :: body where
  "bullets_without_text = [(lit ''summaryType'', JStr (lit ''bullets''))]"

definition brief_request :: body where
  "brief_request =
     [(lit ''text'', JStr (lit ''Hello'')), (lit ''summaryType'', JStr (lit ''brief''))]"

definition annotated_brief_request :: body where
  "annotated_brief_request =
     [(lit ''text'', JStr (lit ''Hello'')), (lit ''summaryType'', JStr (lit ''brief'')),
      (lit ''clientVersion'', JNum (lit ''2''))]"

definition unprintable_role_request :: body where
  "unprintable_role_request = [(lit ''role'', JObj [(lit ''toString'', JNum (lit ''1''))])]"

section \<open>Trimming\<close>

lemma trim_split:
  "raw = takeWhile white_space raw @ trim raw
           @ rev (takeWhile white_space (rev (dropWhile white_space raw)))"
proof -
  let ?b = "dropWhile white_space raw"
  have "rev (takeWhile white_space (rev ?b) @ dropWhile white_space (rev ?b)) = ?b"
    by (simp only: takeWhile_dropWhile_id rev_rev_ident)
  then have "rev (dropWhile white_space (rev ?b)) @ rev (takeWhile white_space (rev ?b)) = ?b"
    by (simp only: rev_append)
  then have "trim raw @ rev (takeWhile white_space (rev ?b)) = ?b"
    by (simp only: trim_def)
  moreover have "takeWhile white_space raw @ ?b = raw"
    by (rule takeWhile_dropWhile_id)
  ultimately show ?thesis by metis
qed

lemma trim_last: "trim raw \<noteq> [] \<Longrightarrow> \<not> white_space (last (trim raw))"
  by (simp add: trim_def last_rev hd_dropWhile)

lemma trim_hd:
  assumes "trim raw \<noteq> []"
  shows "\<not> white_space (hd (trim raw))"
proof -
  let ?b = "dropWhile white_space raw"
  have "takeWhile white_space raw @ ?b = raw"
    by (rule takeWhile_dropWhile_id)
  with trim_split [of raw]
  have b: "?b = trim raw @ rev (takeWhile white_space (rev ?b))"
    by (metis same_append_eq)
  then have "hd ?b = hd (trim raw)"
    using assms by (metis hd_append2)
  moreover have "?b \<noteq> []"
    using b assms by (metis append_is_Nil_conv)
  ultimately show ?thesis
    using hd_dropWhile [of white_space raw] by simp
qed

lemma trim_spec:
  "\<exists>pre suf. raw = pre @ trim raw @ suf \<and> list_all white_space pre \<and> list_all white_space suf"
proof -
  have "list_all white_space (takeWhile white_space raw)"
    by (simp add: list_all_iff) (meson set_takeWhileD)
  moreover have "list_all white_space (rev (takeWhile white_space (rev (dropWhile white_space raw))))"
    by (simp add: list_all_iff) (meson set_takeWhileD)
  ultimately show ?thesis using trim_split [of raw] by blast
qed

lemma trimmed:
  "\<exists>pre suf. raw = pre @ trim raw @ suf \<and> list_all white_space pre \<and> list_all white_space suf
     \<and> (trim raw \<noteq> [] \<longrightarrow> \<not> white_space (hd (trim raw)) \<and> \<not> white_space (last (trim raw)))"
  using trim_spec [of raw] trim_hd [of raw] trim_last [of raw] by blast

section \<open>Template literals\<close>

lemma template7:
  "substitute u = Inr a \<Longrightarrow> substitute v = Inr b \<Longrightarrow> substitute w = Inr c \<Longrightarrow>
   template [Chunk s0, Subst u, Chunk s1, Subst v, Chunk s2, Subst w, Chunk s3]
     = Inr (lit s0 @ a @ lit s1 @ b @ lit s2 @ c @ lit s3)"
  by simp

lemma template5:
  "substitute u = Inr a \<Longrightarrow> substitute v = Inr b \<Longrightarrow>
   template [Chunk s0, Subst u, Chunk s1, Subst v, Chunk s2]
     = Inr (lit s0 @ a @ lit s1 @ b @ lit s2)"
  by simp

section \<open>Validation\<close>

text \<open>
  C1. A translate, summarize or analyze-image request that omits one of the handler's
  required fields (translate: text, fromLang, toLang; summarize: text, summaryType;
  analyze-image: imageData) is answered with status 400 and an error message, and the
  provider is not called.
\<close>

theorem missing_required_field_rejected:
  "(property body ''text'' = None \<or> property body ''fromLang'' = None
      \<or> property body ''toLang'' = None \<longrightarrow>
      translate genAI body =
        (Responded \<lparr>status = 400,
                    payload = [(''error'', lit ''Missing text, fromLang, or toLang in request.'')]\<rparr>, [])
      \<and> calls (snd (translate genAI body)) = [])
   \<and> (property body ''text'' = None \<or> property body ''summaryType'' = None \<longrightarrow>
      summarize genAI body =
        (Responded \<lparr>status = 400,
                    payload = [(''error'', lit ''Missing text or summaryType in request.'')]\<rparr>, [])
      \<and> calls (snd (summarize genAI body)) = [])
   \<and> (property body ''imageData'' = None \<longrightarrow>
      analyze_image genAI body =
        (Responded \<lparr>status = 400,
                    payload = [(''error'', lit ''Missing image data in request.'')]\<rparr>, [])
      \<and> calls (snd (analyze_image genAI body)) = [])"
  by (auto simp: translate_def summarize_def analyze_image_def bad_request_def calls_def Let_def)

theorem missing_required_field_rejected_witness:
  "translate steady_provider incomplete_request =
        (Responded \<lparr>status = 400,
                    payload = [(''error'', lit ''Missing text, fromLang, or toLang in request.'')]\<rparr>, [])
   \<and> summarize steady_provider incomplete_request =
        (Responded \<lparr>status = 400,
                    payload = [(''error'', lit ''Missing text or summaryType in request.'')]\<rparr>, [])
   \<and> analyze_image steady_provider incomplete_request =
        (Responded \<lparr>status = 400,
                    payload = [(''error'', lit ''Missing image data in request.'')]\<rparr>, [])"
  using missing_required_field_rejected [of incomplete_request steady_provider]
  by (simp add: incomplete_request_def property_def lit_def)

text \<open>
  C10. An analyze-image request whose imageData is present but the empty string is
  answered with status 400, and the provider is not called.
\<close>

theorem empty_image_data_rejected:
  "property body ''imageData'' = Some (JStr []) \<Longrightarrow>
     analyze_image genAI body =
       (Responded \<lparr>status = 400,
                   payload = [(''error'', lit ''Missing image data in request.'')]\<rparr>, [])
     \<and> calls (snd (analyze_image genAI body)) = []"
  by (simp add: analyze_image_def bad_request_def calls_def)

theorem empty_image_data_rejected_witness:
  "analyze_image steady_provider empty_image_request =
       (Responded \<lparr>status = 400,
                   payload = [(''error'', lit ''Missing image data in request.'')]\<rparr>, [])
     \<and> calls (snd (analyze_image steady_provider empty_image_request)) = []"
proof -
  have h: "property empty_image_request ''imageData'' = Some (JStr [])"
    by (simp add: empty_image_request_def property_def lit_def)
  show ?thesis
    by (rule empty_image_data_rejected [OF h])
qed

text \<open>
  C8. The two resume handlers check no field. The provider is nevertheless not reached by
  every request: building the prompt stands before the \<open>try\<close>, and a field that
  cannot be converted to a string ends the handler there, with no response and no
  generation.
\<close>

theorem resume_prompt_failure_skips_provider:
  "fst (resume_generate_summary steady_provider unprintable_role_request) = Rejected cannot_convert
   \<and> calls (snd (resume_generate_summary steady_provider unprintable_role_request)) = []"
  by (simp add: resume_generate_summary_def unprintable_role_request_def property_def lit_def
      Let_def calls_def)

text \<open>
  C8, with the conversion made explicit. Neither resume handler ever answers 400,
  whatever the request holds. Whenever the fields that the template interpolates can be
  converted to strings (an absent field can: it reads \<open>undefined\<close>), the prompt is built
  from them and the provider is called exactly once, with that prompt.
\<close>

theorem resume_endpoints_unvalidated:
  "(\<forall>r evs. resume_generate_summary genAI body = (Responded r, evs) \<longrightarrow> status r \<noteq> 400)
   \<and> (\<forall>r evs. resume_optimize_skills genAI body = (Responded r, evs) \<longrightarrow> status r \<noteq> 400)
   \<and> (\<forall>a b c.
         substitute (property body ''role'') = Inr a
       \<and> substitute (property body ''experienceLevel'') = Inr b
       \<and> substitute (property body ''existingSummary'') = Inr c \<longrightarrow>
         calls (snd (resume_generate_summary genAI body)) =
           [\<lparr>model = TEXT_MODEL_NAME,
             prompt = lit ''Generate a concise, impactful professional summary for a '' @ a
                      @ lit '' with '' @ b
                      @ lit '' experience. Incorporate this existing information: \"'' @ c
                      @ lit ''\". Focus on achievements and relevant skills. Keep it to 3-5 sentences.'',
             image = None\<rparr>])
   \<and> (\<forall>a b.
         substitute (property body ''jobDescriptionKeywords'') = Inr a
       \<and> substitute (property body ''currentSkills'') = Inr b \<longrightarrow>
         calls (snd (resume_optimize_skills genAI body)) =
           [\<lparr>model = TEXT_MODEL_NAME,
             prompt = lit ''Optimize the following skills for a resume, considering these job requirements/keywords: \"'' @ a
                      @ lit ''\". Suggest 5-10 strong, relevant skills based on \"'' @ b
                      @ lit ''\". Provide as a comma-separated list of skills.'',
             image = None\<rparr>])"
proof (intro conjI allI impI)
  fix r evs
  assume "resume_generate_summary genAI body = (Responded r, evs)"
  then show "status r \<noteq> 400"
    by (auto simp: resume_generate_summary_def Let_def caught_def split: sum.splits)
next
  fix r evs
  assume "resume_optimize_skills genAI body = (Responded r, evs)"
  then show "status r \<noteq> 400"
    by (auto simp: resume_optimize_skills_def Let_def caught_def split: sum.splits)
next
  fix a b c
  assume "substitute (property body ''role'') = Inr a
       \<and> substitute (property body ''experienceLevel'') = Inr b
       \<and> substitute (property body ''existingSummary'') = Inr c"
  then show "calls (snd (resume_generate_summary genAI body)) =
           [\<lparr>model = TEXT_MODEL_NAME,
             prompt = lit ''Generate a concise, impactful professional summary for a '' @ a
                      @ lit '' with '' @ b
                      @ lit '' experience. Incorporate this existing information: \"'' @ c
                      @ lit ''\". Focus on achievements and relevant skills. Keep it to 3-5 sentences.'',
             image = None\<rparr>]"
    by (simp add: resume_generate_summary_def Let_def template7 caught_def calls_def
        del: template.simps split: sum.splits)
next
  fix a b
  assume "substitute (property body ''jobDescriptionKeywords'') = Inr a
       \<and> substitute (property body ''currentSkills'') = Inr b"
  then show "calls (snd (resume_optimize_skills genAI body)) =
           [\<lparr>model = TEXT_MODEL_NAME,
             prompt = lit ''Optimize the following skills for a resume, considering these job requirements/keywords: \"'' @ a
                      @ lit ''\". Suggest 5-10 strong, relevant skills based on \"'' @ b
                      @ lit ''\". Provide as a comma-separated list of skills.'',
             image = None\<rparr>]"
    by (simp add: resume_optimize_skills_def Let_def template5 caught_def calls_def
        del: template.simps split: sum.splits)
qed

theorem resume_endpoints_unvalidated_witness:
  "calls (snd (resume_generate_summary steady_provider [])) =
     [\<lparr>model = TEXT_MODEL_NAME,
       prompt = lit ''Generate a concise, impactful professional summary for a undefined with undefined experience. Incorporate this existing information: \"undefined\". Focus on achievements and relevant skills. Keep it to 3-5 sentences.'',
       image = None\<rparr>]
   \<and> calls (snd (resume_optimize_skills steady_provider [])) =
     [\<lparr>model = TEXT_MODEL_NAME,
       prompt = lit ''Optimize the following skills for a resume, considering these job requirements/keywords: \"undefined\". Suggest 5-10 strong, relevant skills based on \"undefined\". Provide as a comma-separated list of skills.'',
       image = None\<rparr>]
   \<and> fst (resume_generate_summary steady_provider []) =
       Responded \<lparr>status = 200, payload = [(''generatedSummary'', lit ''Bonjour'')]\<rparr>
   \<and> fst (resume_optimize_skills steady_provider []) =
       Responded \<lparr>status = 200, payload = [(''optimizedSkills'', lit ''Bonjour'')]\<rparr>"
proof -
  have u: "substitute (property [] k) = Inr (lit ''undefined'')" for k
    by (simp add: property_def)
  have tr: "trim (lit ''  Bonjour \<newline>'') = lit ''Bonjour''"
    by (simp add: trim_def white_space_def lit_def)
  have c: "lit (x @ y) = lit x @ lit y" for x y
    by (simp add: lit_def)
  have g: "fst (resume_generate_summary steady_provider []) =
       Responded \<lparr>status = 200, payload = [(''generatedSummary'', lit ''Bonjour'')]\<rparr>"
    by (simp add: resume_generate_summary_def Let_def u template7 steady_provider_def tr
        del: template.simps)
  have s: "fst (resume_optimize_skills steady_provider []) =
       Responded \<lparr>status = 200, payload = [(''optimizedSkills'', lit ''Bonjour'')]\<rparr>"
    by (simp add: resume_optimize_skills_def Let_def u template5 steady_provider_def tr
        del: template.simps)
  show ?thesis
    using resume_endpoints_unvalidated [of steady_provider "[]"] u g s
    by (simp add: lit_def)
qed

section \<open>The audio placeholder\<close>

text \<open>
  C5. Whatever the request holds, audioData or not, analyze-audio answers with the same
  two fixed strings, after one timer of 2500 milliseconds, and calls no provider.
\<close>

theorem analyze_audio_fixed_reply:
  "fst (analyze_audio genAI body) =
     Responded
       \<lparr>status = 200,
        payload =
          [(''transcription'',
            lit ''This is a simulated transcription of your audio. For real transcription, consider using a dedicated Speech-to-Text API.''),
           (''emotion'',
            lit ''Simulated emotion: Neutral, with hints of curiosity. (Real emotion analysis would be derived from the transcribed text using a language model).'')]\<rparr>
   \<and> timers (snd (analyze_audio genAI body)) = [2500]
   \<and> calls (snd (analyze_audio genAI body)) = []"
  by (simp add: analyze_audio_def timers_def calls_def)

section \<open>Summaries and key points\<close>

text \<open>
  C2. A summarize request whose summaryType is \<open>bullets\<close> or \<open>key\<close> does not always lead
  to one generation: without text the presence check answers 400 and no generation is
  requested.
\<close>

theorem bullets_without_text_no_generation:
  "calls (snd (summarize steady_provider bullets_without_text)) = []
   \<and> fst (summarize steady_provider bullets_without_text) =
       Responded \<lparr>status = 400,
                  payload = [(''error'', lit ''Missing text or summaryType in request.'')]\<rparr>"
  by (simp add: summarize_def bullets_without_text_def property_def lit_def Let_def
      bad_request_def calls_def)

text \<open>
  C2, for a request that passes the presence check. With summaryType \<open>bullets\<close> or \<open>key\<close>
  exactly one generation is requested, with the prompt of that summaryType, and never a
  second. When it returns, the answer is 200 and its keyPoints is the very text of its
  summary, the trimmed output; when it throws, the answer is the 500 of the catch block.
\<close>

theorem bullets_or_key_single_generation:
  assumes tx: "truthy (property body ''text'')"
    and st: "property body ''summaryType'' = Some (JStr (lit ''bullets''))
           \<or> property body ''summaryType'' = Some (JStr (lit ''key''))"
    and sub: "substitute (property body ''text'') = Inr t"
    and p: "p = lit (if property body ''summaryType'' = Some (JStr (lit ''bullets'')) then
                       ''Summarize the following text into 3-5 key bullet points. Only the bullet points.\<newline>Text: \"''
                     else
                       ''Extract the absolute 3-5 most important key points from the following text as a numbered list. Only the numbered list.\<newline>Text: \"'')
                @ t @ lit ''\"''"
  shows "calls (snd (summarize genAI body)) =
           [\<lparr>model = TEXT_MODEL_NAME, prompt = p, image = None\<rparr>]
       \<and> (case genAI 0 \<lparr>model = TEXT_MODEL_NAME, prompt = p, image = None\<rparr> of
            Inr raw \<Rightarrow>
              fst (summarize genAI body) =
                Responded \<lparr>status = 200,
                           payload = [(''summary'', trim raw), (''keyPoints'', trim raw)]\<rparr>
          | Inl error \<Rightarrow>
              fst (summarize genAI body) =
                Responded \<lparr>status = 500,
                           payload = [(''error'', lit ''Failed to summarize text. Please check your API key and input.''),
                                      (''details'', message error)]\<rparr>)"
proof -
  have ne: "lit ''bullets'' \<noteq> []" "lit ''key'' \<noteq> []"
    "lit ''bullets'' \<noteq> lit ''brief''" "lit ''bullets'' \<noteq> lit ''detailed''"
    "lit ''key'' \<noteq> lit ''brief''" "lit ''key'' \<noteq> lit ''detailed''" "lit ''key'' \<noteq> lit ''bullets''"
    by (simp_all add: lit_def)
  have ts: "truthy (property body ''summaryType'')"
    using st ne by auto
  have tp: "template (summary_prompt (property body ''summaryType'') (property body ''text'')) = Inr p"
    using st sub ne by (auto simp: summary_prompt_def p)
  show ?thesis
    using tx ts st
    by (auto simp: summarize_def Let_def tp calls_def caught_def split: sum.splits)
qed

theorem bullets_or_key_single_generation_witness:
  "calls (snd (summarize steady_provider bullets_request)) =
     [\<lparr>model = TEXT_MODEL_NAME,
       prompt = lit ''Summarize the following text into 3-5 key bullet points. Only the bullet points.\<newline>Text: \"''
                @ lit ''Hello'' @ lit ''\"'',
       image = None\<rparr>]
   \<and> fst (summarize steady_provider bullets_request) =
       Responded \<lparr>status = 200,
                  payload = [(''summary'', lit ''Bonjour''), (''keyPoints'', lit ''Bonjour'')]\<rparr>"
proof -
  have pr: "property bullets_request ''text'' = Some (JStr (lit ''Hello''))"
      "property bullets_request ''summaryType'' = Some (JStr (lit ''bullets''))"
    by (simp_all add: bullets_request_def property_def lit_def)
  have ne: "lit ''Hello'' \<noteq> []"
    by (simp add: lit_def)
  have tr: "trim (lit ''  Bonjour \<newline>'') = lit ''Bonjour''"
    by (simp add: trim_def white_space_def lit_def)
  show ?thesis
    using bullets_or_key_single_generation
      [of bullets_request "lit ''Hello''" _ steady_provider, OF _ _ _ refl]
    by (simp add: pr ne tr steady_provider_def)
qed

text \<open>
  C3. A summarize request of any other summaryType does not always lead to two
  generations: when the first one throws, the catch block answers 500 and the second is
  never asked for.
\<close>

theorem brief_single_call_when_provider_fails:
  "length (calls (snd (summarize failing_provider brief_request))) = 1
   \<and> fst (summarize failing_provider brief_request) =
       Responded \<lparr>status = 500,
                  payload = [(''error'', lit ''Failed to summarize text. Please check your API key and input.''),
                             (''details'', lit ''429 Too Many Requests'')]\<rparr>"
  by (simp add: brief_request_def failing_provider_def quota_error_def property_def lit_def
      summarize_def summary_prompt_def Let_def calls_def caught_def)

text \<open>
  C3, for a request that passes the presence check and whose first generation returns.
  With a summaryType other than \<open>bullets\<close> and \<open>key\<close> (\<open>brief\<close>, \<open>detailed\<close>, or a value
  the \<open>switch\<close> does not know, which takes the default prompt) exactly two generations
  are requested: the first with the summary prompt selected for the summaryType, the
  second with the fixed \<open>Extract 3-5 key takeaways\<close> prompt. When the second returns,
  its trimmed text is keyPoints and the trimmed text of the first is summary; when it
  throws, the answer is the 500 of the catch block.
\<close>

theorem separate_key_points_second_generation:
  assumes tx: "truthy (property body ''text'')"
    and st: "truthy (property body ''summaryType'')"
    and nb: "property body ''summaryType'' \<noteq> Some (JStr (lit ''bullets''))"
    and nk: "property body ''summaryType'' \<noteq> Some (JStr (lit ''key''))"
    and sub: "substitute (property body ''text'') = Inr t"
    and p: "p = lit (if property body ''summaryType'' = Some (JStr (lit ''brief'')) then
                       ''Provide a very brief, 1-2 sentence summary of the following text. Only the summary.\<newline>Text: \"''
                     else if property body ''summaryType'' = Some (JStr (lit ''detailed'')) then
                       ''Provide a detailed, 3-5 sentence summary of the following text. Only the summary.\<newline>Text: \"''
                     else ''Summarize the following text. Only the summary.\<newline>Text: \"'')
                @ t @ lit ''\"''"
    and kp: "kp = lit ''Extract 3-5 key takeaways from the following text as bullet points:\<newline>\"''
                  @ t @ lit ''\"''"
    and first: "genAI 0 \<lparr>model = TEXT_MODEL_NAME, prompt = p, image = None\<rparr> = Inr raw"
  shows "calls (snd (summarize genAI body)) =
           [\<lparr>model = TEXT_MODEL_NAME, prompt = p, image = None\<rparr>,
            \<lparr>model = TEXT_MODEL_NAME, prompt = kp, image = None\<rparr>]
       \<and> (case genAI 1 \<lparr>model = TEXT_MODEL_NAME, prompt = kp, image = None\<rparr> of
            Inr keyPointsRaw \<Rightarrow>
              fst (summarize genAI body) =
                Responded \<lparr>status = 200,
                           payload = [(''summary'', trim raw), (''keyPoints'', trim keyPointsRaw)]\<rparr>
          | Inl error \<Rightarrow>
              fst (summarize genAI body) =
                Responded \<lparr>status = 500,
                           payload = [(''error'', lit ''Failed to summarize text. Please check your API key and input.''),
                                      (''details'', message error)]\<rparr>)"
proof -
  have tp: "template (summary_prompt (property body ''summaryType'') (property body ''text'')) = Inr p"
    using sub nb nk by (simp add: summary_prompt_def p)
  have tk: "template (keyPointsPrompt (property body ''text'')) = Inr kp"
    using sub by (simp add: keyPointsPrompt_def kp)
  show ?thesis
    using tx st nb nk first
    by (simp add: summarize_def Let_def tp tk calls_def caught_def split: sum.splits)
qed

theorem separate_key_points_second_generation_witness:
  "calls (snd (summarize steady_provider brief_request)) =
     [\<lparr>model = TEXT_MODEL_NAME,
       prompt = lit ''Provide a very brief, 1-2 sentence summary of the following text. Only the summary.\<newline>Text: \"''
                @ lit ''Hello'' @ lit ''\"'',
       image = None\<rparr>,
      \<lparr>model = TEXT_MODEL_NAME,
       prompt = lit ''Extract 3-5 key takeaways from the following text as bullet points:\<newline>\"''
                @ lit ''Hello'' @ lit ''\"'',
       image = None\<rparr>]
   \<and> fst (summarize steady_provider brief_request) =
       Responded \<lparr>status = 200,
                  payload = [(''summary'', lit ''Bonjour''), (''keyPoints'', lit ''Bonjour'')]\<rparr>"
proof -
  have pr: "property brief_request ''text'' = Some (JStr (lit ''Hello''))"
           "property brief_request ''summaryType'' = Some (JStr (lit ''brief''))"
    by (simp_all add: brief_request_def property_def lit_def)
  have tr: "trim (lit ''  Bonjour \<newline>'') = lit ''Bonjour''"
    by (simp add: trim_def white_space_def lit_def)
  have nb: "lit ''brief'' \<noteq> lit ''bullets''" "lit ''brief'' \<noteq> lit ''key''" "lit ''Hello'' \<noteq> []"
    "lit ''brief'' \<noteq> []"
    by (simp_all add: lit_def)
  show ?thesis
    using separate_key_points_second_generation
      [of brief_request "lit ''Hello''" _ _ steady_provider "lit ''  Bonjour \<newline>''", OF _ _ _ _ _ refl refl]
    by (simp add: pr nb tr steady_provider_def)
qed

section \<open>Provider failures\<close>

lemma translate_failure:
  assumes "translate genAI body = (out, evs)" "n < length (calls evs)"
    "genAI n (calls evs ! n) = Inl error"
  shows "out = Responded \<lparr>status = 500,
            payload = [(''error'', lit (failure_message Translate)), (''details'', message error)]\<rparr>"
  using assms
  by (auto simp: translate_def Let_def bad_request_def caught_def calls_def
      split: if_splits sum.splits)

lemma summarize_failure:
  assumes "summarize genAI body = (out, evs)" "n < length (calls evs)"
    "genAI n (calls evs ! n) = Inl error"
  shows "out = Responded \<lparr>status = 500,
            payload = [(''error'', lit (failure_message Summarize)), (''details'', message error)]\<rparr>"
  using assms
  by (auto simp: summarize_def Let_def bad_request_def caught_def calls_def less_Suc_eq nth_Cons'
      split: if_splits sum.splits)

lemma analyze_image_failure:
  assumes "analyze_image genAI body = (out, evs)" "n < length (calls evs)"
    "genAI n (calls evs ! n) = Inl error"
  shows "out = Responded \<lparr>status = 500,
            payload = [(''error'', lit (failure_message AnalyzeImage)), (''details'', message error)]\<rparr>"
  using assms
  by (auto simp: analyze_image_def Let_def bad_request_def caught_def calls_def
      split: if_splits sum.splits)

lemma resume_generate_summary_failure:
  assumes "resume_generate_summary genAI body = (out, evs)" "n < length (calls evs)"
    "genAI n (calls evs ! n) = Inl error"
  shows "out = Responded \<lparr>status = 500,
            payload = [(''error'', lit (failure_message GenerateResumeSummary)), (''details'', message error)]\<rparr>"
  using assms
  by (auto simp: resume_generate_summary_def Let_def caught_def calls_def
      split: if_splits sum.splits)

lemma resume_optimize_skills_failure:
  assumes "resume_optimize_skills genAI body = (out, evs)" "n < length (calls evs)"
    "genAI n (calls evs ! n) = Inl error"
  shows "out = Responded \<lparr>status = 500,
            payload = [(''error'', lit (failure_message OptimizeSkills)), (''details'', message error)]\<rparr>"
  using assms
  by (auto simp: resume_optimize_skills_def Let_def caught_def calls_def
      split: if_splits sum.splits)

text \<open>
  C4. In each of the five handlers that call the provider (translate, summarize,
  analyze-image, generate-resume-summary, optimize-skills), when a generation throws, the
  answer has status 500, an \<open>error\<close> field with the handler's fixed message, and a
  \<open>details\<close> field with the message of the error thrown.
\<close>

theorem provider_failure_reported:
  assumes "operation \<noteq> AnalyzeAudio"
    and "handle operation genAI body = (out, evs)"
    and "n < length (calls evs)"
    and "genAI n (calls evs ! n) = Inl error"
  shows "out = Responded \<lparr>status = 500,
            payload = [(''error'', lit (failure_message operation)),
                       (''details'', message error)]\<rparr>"
proof (cases operation)
  case Translate
  then show ?thesis using assms translate_failure by simp
next
  case Summarize
  then show ?thesis using assms summarize_failure by simp
next
  case AnalyzeImage
  then show ?thesis using assms analyze_image_failure by simp
next
  case AnalyzeAudio
  then show ?thesis using assms by simp
next
  case GenerateResumeSummary
  then show ?thesis using assms resume_generate_summary_failure by simp
next
  case OptimizeSkills
  then show ?thesis using assms resume_optimize_skills_failure by simp
qed

theorem provider_failure_reported_witness:
  "fst (handle Translate failing_provider hello_request) =
     Responded \<lparr>status = 500,
        payload = [(''error'', lit ''Failed to translate text. Please check your API key and input.''),
                   (''details'', lit ''429 Too Many Requests'')]\<rparr>"
proof -
  have e: "handle Translate failing_provider hello_request =
             (fst (handle Translate failing_provider hello_request),
              snd (handle Translate failing_provider hello_request))"
    by simp
  have l: "0 < length (calls (snd (handle Translate failing_provider hello_request)))"
    by (simp add: hello_request_def failing_provider_def property_def lit_def translate_def
        Let_def caught_def calls_def)
  have f: "failing_provider 0 (calls (snd (handle Translate failing_provider hello_request)) ! 0)
             = Inl quota_error"
    by (simp add: failing_provider_def)
  show ?thesis
    using provider_failure_reported [OF _ e l f] by (simp add: quota_error_def)
qed

section \<open>The image attachment\<close>

text \<open>
  C9. Every generation that analyze-image requests carries the image with a media type:
  \<open>image/jpeg\<close> when the request has no imageMimeType, and the request's own
  imageMimeType, unchanged, when that is a non-empty string (or any other truthy value).
  A request whose imageData passes the check leads to one such generation.
\<close>

theorem image_media_type_default:
  "(\<forall>request \<in> set (calls (snd (analyze_image genAI body))).
      \<exists>part. image request = Some part
        \<and> data part = property body ''imageData''
        \<and> (property body ''imageMimeType'' = None \<longrightarrow>
             mimeType part = Some (JStr (lit ''image/jpeg'')))
        \<and> (\<forall>s. property body ''imageMimeType'' = Some (JStr s) \<and> s \<noteq> [] \<longrightarrow>
             mimeType part = Some (JStr s))
        \<and> (truthy (property body ''imageMimeType'') \<longrightarrow>
             mimeType part = property body ''imageMimeType''))
   \<and> (truthy (property body ''imageData'') \<longrightarrow>
        length (calls (snd (analyze_image genAI body))) = 1)"
proof -
  have c: "map image (calls (snd (analyze_image genAI body))) =
             (if truthy (property body ''imageData'')
              then [Some \<lparr>data = property body ''imageData'',
                          mimeType = or_else (property body ''imageMimeType'')
                                       (Some (JStr (lit ''image/jpeg'')))\<rparr>]
              else [])"
    by (simp add: analyze_image_def Let_def bad_request_def caught_def calls_def
        imageToGenerativePart_def split: sum.splits)
  show ?thesis
  proof (cases "truthy (property body ''imageData'')")
    case False
    with c show ?thesis by simp
  next
    case True
    with c obtain request where r: "calls (snd (analyze_image genAI body)) = [request]"
      and i: "image request = Some \<lparr>data = property body ''imageData'',
                          mimeType = or_else (property body ''imageMimeType'')
                                       (Some (JStr (lit ''image/jpeg'')))\<rparr>"
      by auto
    show ?thesis
      by (simp add: r i or_else_def)
  qed
qed

theorem image_media_type_default_witness:
  "map image (calls (snd (analyze_image steady_provider bare_image_request))) =
     [Some \<lparr>data = Some (JStr (lit ''iVBORw0KGgo='')), mimeType = Some (JStr (lit ''image/jpeg''))\<rparr>]
   \<and> map image (calls (snd (analyze_image steady_provider png_request))) =
     [Some \<lparr>data = Some (JStr (lit ''iVBORw0KGgo='')), mimeType = Some (JStr (lit ''image/png''))\<rparr>]"
proof -
  have b: "property bare_image_request ''imageData'' = Some (JStr (lit ''iVBORw0KGgo=''))"
      "property bare_image_request ''imageMimeType'' = None"
    by (simp_all add: bare_image_request_def property_def lit_def)
  have p: "property png_request ''imageData'' = Some (JStr (lit ''iVBORw0KGgo=''))"
      "property png_request ''imageMimeType'' = Some (JStr (lit ''image/png''))"
    by (simp_all add: png_request_def property_def lit_def)
  have ne: "lit ''iVBORw0KGgo='' \<noteq> []" "lit ''image/png'' \<noteq> []"
    by (simp_all add: lit_def)
  have one: "length xs = 1 \<Longrightarrow> \<exists>x. xs = [x]" for xs :: "gen_request list"
    by (cases xs) auto
  from image_media_type_default [of steady_provider bare_image_request] b ne
  obtain x where x: "calls (snd (analyze_image steady_provider bare_image_request)) = [x]"
    using one by auto
  from image_media_type_default [of steady_provider png_request] p ne
  obtain y where y: "calls (snd (analyze_image steady_provider png_request)) = [y]"
    using one by auto
  show ?thesis
    using image_media_type_default [of steady_provider bare_image_request]
      image_media_type_default [of steady_provider png_request] x y b p ne
    by auto
qed

section \<open>Returned text\<close>

lemma calls_simps:
  "calls [] = []"
  "calls (Generate r # evs) = r # calls evs"
  by (simp_all add: calls_def)

lemma caught_not_success:
  "caught label with_details msg error evs = (out, evs') \<Longrightarrow>
     \<not> (\<exists>r. out = Responded r \<and> status r = 200) \<and> calls evs' = calls evs"
  by (auto simp: caught_def calls_def)

lemma key_points_template_follows:
  "template (summary_prompt st v) = Inr p \<Longrightarrow> \<exists>kp. template (keyPointsPrompt v) = Inr kp"
  by (auto simp: summary_prompt_def keyPointsPrompt_def split: if_splits sum.splits)

lemma summarize_valid:
  assumes "truthy (property body ''text'')" "truthy (property body ''summaryType'')"
    and "template (summary_prompt (property body ''summaryType'') (property body ''text'')) = Inr p"
    and "template (keyPointsPrompt (property body ''text'')) = Inr kp"
    and "msg = ''Failed to summarize text. Please check your API key and input.''"
  shows "summarize genAI body =
     (case genAI 0 \<lparr>model = TEXT_MODEL_NAME, prompt = p, image = None\<rparr> of
        Inl error \<Rightarrow>
          caught ''Error summarizing text:'' True msg error
            [Generate \<lparr>model = TEXT_MODEL_NAME, prompt = p, image = None\<rparr>]
      | Inr raw \<Rightarrow>
          if property body ''summaryType'' = Some (JStr (lit ''bullets''))
             \<or> property body ''summaryType'' = Some (JStr (lit ''key''))
          then (Responded \<lparr>status = 200,
                           payload = [(''summary'', trim raw), (''keyPoints'', trim raw)]\<rparr>,
                [Generate \<lparr>model = TEXT_MODEL_NAME, prompt = p, image = None\<rparr>])
          else
            (case genAI 1 \<lparr>model = TEXT_MODEL_NAME, prompt = kp, image = None\<rparr> of
               Inl error \<Rightarrow>
                 caught ''Error summarizing text:'' True msg error
                   [Generate \<lparr>model = TEXT_MODEL_NAME, prompt = p, image = None\<rparr>,
                    Generate \<lparr>model = TEXT_MODEL_NAME, prompt = kp, image = None\<rparr>]
             | Inr keyPointsRaw \<Rightarrow>
                 (Responded \<lparr>status = 200,
                             payload = [(''summary'', trim raw), (''keyPoints'', trim keyPointsRaw)]\<rparr>,
                  [Generate \<lparr>model = TEXT_MODEL_NAME, prompt = p, image = None\<rparr>,
                   Generate \<lparr>model = TEXT_MODEL_NAME, prompt = kp, image = None\<rparr>])))"
  using assms(1,2)
  by (simp add: summarize_def Let_def assms(3,4,5) split: sum.splits)

lemma translate_generates:
  assumes "translate genAI body = (out, evs)"
  shows "(calls evs \<noteq> []) =
           (truthy (property body ''text'') \<and> truthy (property body ''fromLang'')
            \<and> truthy (property body ''toLang'') \<and> converts (property body ''fromLang'')
            \<and> converts (property body ''toLang'') \<and> converts (property body ''text''))"
  using assms
  by (auto simp: translate_def Let_def bad_request_def caught_def calls_def converts_def
      split: if_splits sum.splits)

lemma summarize_generates:
  assumes "summarize genAI body = (out, evs)"
  shows "(calls evs \<noteq> []) =
           (truthy (property body ''text'') \<and> truthy (property body ''summaryType'')
            \<and> converts (property body ''text''))"
proof -
  have t: "(\<exists>p. template (summary_prompt (property body ''summaryType'') (property body ''text'')) = Inr p)
             = converts (property body ''text'')"
    by (auto simp: summary_prompt_def converts_def split: sum.splits)
  show ?thesis
  proof (cases "truthy (property body ''text'') \<and> truthy (property body ''summaryType'')")
    case False
    then have "summarize genAI body = bad_request ''Missing text or summaryType in request.''"
      by (auto simp: summarize_def Let_def)
    with assms False show ?thesis
      by (auto simp: bad_request_def calls_def)
  next
    case True
    show ?thesis
    proof (cases "template (summary_prompt (property body ''summaryType'') (property body ''text''))")
      case (Inl e)
      with True have "summarize genAI body = (Rejected e, [])"
        by (simp add: summarize_def Let_def)
      with assms t Inl show ?thesis
        by (auto simp: calls_def)
    next
      case (Inr p)
      then obtain kp where kp: "template (keyPointsPrompt (property body ''text'')) = Inr kp"
        using key_points_template_follows by blast
      note u = summarize_valid [OF conjunct1 [OF True] conjunct2 [OF True] Inr kp refl, of genAI]
      have "calls evs \<noteq> []"
        using assms unfolding u
        by (auto simp: calls_simps dest!: caught_not_success split: sum.splits if_splits)
      with True t Inr show ?thesis
        by auto
    qed
  qed
qed

lemma analyze_image_generates:
  assumes "analyze_image genAI body = (out, evs)"
  shows "(calls evs \<noteq> []) = truthy (property body ''imageData'')"
  using assms
  by (auto simp: analyze_image_def Let_def bad_request_def caught_def calls_def
      split: if_splits sum.splits)

lemma resume_generate_summary_generates:
  assumes "resume_generate_summary genAI body = (out, evs)"
  shows "(calls evs \<noteq> []) =
           (converts (property body ''role'') \<and> converts (property body ''experienceLevel'')
            \<and> converts (property body ''existingSummary''))"
  using assms
  by (auto simp: resume_generate_summary_def Let_def caught_def calls_def converts_def
      split: if_splits sum.splits)

lemma resume_optimize_skills_generates:
  assumes "resume_optimize_skills genAI body = (out, evs)"
  shows "(calls evs \<noteq> []) =
           (converts (property body ''jobDescriptionKeywords'')
            \<and> converts (property body ''currentSkills''))"
  using assms
  by (auto simp: resume_optimize_skills_def Let_def caught_def calls_def converts_def
      split: if_splits sum.splits)

lemma translate_generated:
  assumes "translate genAI body = (out, evs)"
  shows "(calls evs \<noteq> [] \<and> (\<forall>n < length (calls evs). \<exists>raw. genAI n (calls evs ! n) = Inr raw))
           = (\<exists>r. out = Responded r \<and> status r = 200)"
    and "calls evs \<noteq> [] \<Longrightarrow> \<forall>n < length (calls evs). genAI n (calls evs ! n) = Inr (raw n) \<Longrightarrow>
         length (calls evs) = 1
         \<and> out = Responded \<lparr>status = 200, payload = [(''translatedText'', trim (raw 0))]\<rparr>"
  using assms
  by (auto simp: translate_def Let_def bad_request_def caught_def calls_def
      split: if_splits sum.splits)

lemma analyze_image_generated:
  assumes "analyze_image genAI body = (out, evs)"
  shows "(calls evs \<noteq> [] \<and> (\<forall>n < length (calls evs). \<exists>raw. genAI n (calls evs ! n) = Inr raw))
           = (\<exists>r. out = Responded r \<and> status r = 200)"
    and "calls evs \<noteq> [] \<Longrightarrow> \<forall>n < length (calls evs). genAI n (calls evs ! n) = Inr (raw n) \<Longrightarrow>
         length (calls evs) = 1
         \<and> out = Responded \<lparr>status = 200, payload = [(''description'', trim (raw 0))]\<rparr>"
  using assms
  by (auto simp: analyze_image_def Let_def bad_request_def caught_def calls_def
      split: if_splits sum.splits)

lemma resume_generate_summary_generated:
  assumes "resume_generate_summary genAI body = (out, evs)"
  shows "(calls evs \<noteq> [] \<and> (\<forall>n < length (calls evs). \<exists>raw. genAI n (calls evs ! n) = Inr raw))
           = (\<exists>r. out = Responded r \<and> status r = 200)"
    and "calls evs \<noteq> [] \<Longrightarrow> \<forall>n < length (calls evs). genAI n (calls evs ! n) = Inr (raw n) \<Longrightarrow>
         length (calls evs) = 1
         \<and> out = Responded \<lparr>status = 200, payload = [(''generatedSummary'', trim (raw 0))]\<rparr>"
  using assms
  by (auto simp: resume_generate_summary_def Let_def caught_def calls_def
      split: if_splits sum.splits)

lemma resume_optimize_skills_generated:
  assumes "resume_optimize_skills genAI body = (out, evs)"
  shows "(calls evs \<noteq> [] \<and> (\<forall>n < length (calls evs). \<exists>raw. genAI n (calls evs ! n) = Inr raw))
           = (\<exists>r. out = Responded r \<and> status r = 200)"
    and "calls evs \<noteq> [] \<Longrightarrow> \<forall>n < length (calls evs). genAI n (calls evs ! n) = Inr (raw n) \<Longrightarrow>
         length (calls evs) = 1
         \<and> out = Responded \<lparr>status = 200, payload = [(''optimizedSkills'', trim (raw 0))]\<rparr>"
  using assms
  by (auto simp: resume_optimize_skills_def Let_def caught_def calls_def
      split: if_splits sum.splits)

lemma summarize_generated:
  assumes s: "summarize genAI body = (out, evs)"
  shows "(calls evs \<noteq> [] \<and> (\<forall>n < length (calls evs). \<exists>raw. genAI n (calls evs ! n) = Inr raw))
           = (\<exists>r. out = Responded r \<and> status r = 200)"
    and "calls evs \<noteq> [] \<Longrightarrow> \<forall>n < length (calls evs). genAI n (calls evs ! n) = Inr (raw n) \<Longrightarrow>
         (if property body ''summaryType'' = Some (JStr (lit ''bullets''))
             \<or> property body ''summaryType'' = Some (JStr (lit ''key''))
          then length (calls evs) = 1
             \<and> out = Responded \<lparr>status = 200,
                    payload = [(''summary'', trim (raw 0)), (''keyPoints'', trim (raw 0))]\<rparr>
          else length (calls evs) = 2
             \<and> out = Responded \<lparr>status = 200,
                    payload = [(''summary'', trim (raw 0)), (''keyPoints'', trim (raw 1))]\<rparr>)"
proof -
  let ?valid = "truthy (property body ''text'') \<and> truthy (property body ''summaryType'')"
  let ?t = "template (summary_prompt (property body ''summaryType'') (property body ''text''))"
  have both: "((calls evs \<noteq> [] \<and> (\<forall>n < length (calls evs). \<exists>raw. genAI n (calls evs ! n) = Inr raw))
           = (\<exists>r. out = Responded r \<and> status r = 200))
     \<and> (calls evs \<noteq> [] \<longrightarrow> (\<forall>n < length (calls evs). genAI n (calls evs ! n) = Inr (raw n)) \<longrightarrow>
         (if property body ''summaryType'' = Some (JStr (lit ''bullets''))
             \<or> property body ''summaryType'' = Some (JStr (lit ''key''))
          then length (calls evs) = 1
             \<and> out = Responded \<lparr>status = 200,
                    payload = [(''summary'', trim (raw 0)), (''keyPoints'', trim (raw 0))]\<rparr>
          else length (calls evs) = 2
             \<and> out = Responded \<lparr>status = 200,
                    payload = [(''summary'', trim (raw 0)), (''keyPoints'', trim (raw 1))]\<rparr>))"
  proof (cases ?valid)
    case False
    then have "summarize genAI body =
        bad_request ''Missing text or summaryType in request.''"
      by (auto simp: summarize_def Let_def)
    with s show ?thesis
      by (auto simp: bad_request_def calls_def)
  next
    case True
    show ?thesis
    proof (cases ?t)
      case (Inl e)
      with True have "summarize genAI body = (Rejected e, [])"
        by (simp add: summarize_def Let_def)
      with s show ?thesis
        by (auto simp: calls_def)
    next
      case (Inr p)
      then obtain kp where kp: "template (keyPointsPrompt (property body ''text'')) = Inr kp"
        using key_points_template_follows by blast
      note u = summarize_valid [OF conjunct1 [OF True] conjunct2 [OF True] Inr kp refl, of genAI]
      show ?thesis
        using s unfolding u
        by (auto simp: calls_def less_Suc_eq all_conj_distrib
            dest!: caught_not_success split: sum.splits if_splits)
    qed
  qed
  from both show "(calls evs \<noteq> [] \<and> (\<forall>n < length (calls evs). \<exists>raw. genAI n (calls evs ! n) = Inr raw))
           = (\<exists>r. out = Responded r \<and> status r = 200)"
    by (rule conjunct1)
  from both show "calls evs \<noteq> [] \<Longrightarrow> \<forall>n < length (calls evs). genAI n (calls evs ! n) = Inr (raw n) \<Longrightarrow>
         (if property body ''summaryType'' = Some (JStr (lit ''bullets''))
             \<or> property body ''summaryType'' = Some (JStr (lit ''key''))
          then length (calls evs) = 1
             \<and> out = Responded \<lparr>status = 200,
                    payload = [(''summary'', trim (raw 0)), (''keyPoints'', trim (raw 0))]\<rparr>
          else length (calls evs) = 2
             \<and> out = Responded \<lparr>status = 200,
                    payload = [(''summary'', trim (raw 0)), (''keyPoints'', trim (raw 1))]\<rparr>)"
    by blast
qed

text \<open>
  C7. A generating handler requests a generation exactly when the request passes its
  presence check and the fields of its prompt convert to strings, and it answers 200
  exactly when it requested a generation and every generation it requested returned.
  Every text of that answer is then the raw output of its own generation with the white
  space removed from both ends: translatedText, description, generatedSummary and
  optimizedSkills come from the one generation, summary from the first, and keyPoints
  from the first for \<open>bullets\<close> and \<open>key\<close> and from the second otherwise. Removing the
  white space leaves the text between two runs of white space, and what is left neither
  begins nor ends with white space.
\<close>

theorem returned_text_is_trimmed_output:
  assumes "operation \<noteq> AnalyzeAudio"
    and "handle operation genAI body = (out, evs)"
  shows "((calls evs \<noteq> []) =
            (case operation of
               Translate \<Rightarrow>
                 truthy (property body ''text'') \<and> truthy (property body ''fromLang'')
                 \<and> truthy (property body ''toLang'') \<and> converts (property body ''fromLang'')
                 \<and> converts (property body ''toLang'') \<and> converts (property body ''text'')
             | Summarize \<Rightarrow>
                 truthy (property body ''text'') \<and> truthy (property body ''summaryType'')
                 \<and> converts (property body ''text'')
             | AnalyzeImage \<Rightarrow> truthy (property body ''imageData'')
             | AnalyzeAudio \<Rightarrow> False
             | GenerateResumeSummary \<Rightarrow>
                 converts (property body ''role'') \<and> converts (property body ''experienceLevel'')
                 \<and> converts (property body ''existingSummary'')
             | OptimizeSkills \<Rightarrow>
                 converts (property body ''jobDescriptionKeywords'')
                 \<and> converts (property body ''currentSkills'')))
       \<and> ((calls evs \<noteq> [] \<and> (\<forall>n < length (calls evs). \<exists>text. genAI n (calls evs ! n) = Inr text))
            = (\<exists>r. out = Responded r \<and> status r = 200))
       \<and> (calls evs \<noteq> [] \<and> (\<forall>n < length (calls evs). genAI n (calls evs ! n) = Inr (raw n)) \<longrightarrow>
            length (calls evs) =
              (if operation = Summarize
                  \<and> property body ''summaryType'' \<noteq> Some (JStr (lit ''bullets''))
                  \<and> property body ''summaryType'' \<noteq> Some (JStr (lit ''key''))
               then 2 else 1)
          \<and> out = Responded
                \<lparr>status = 200,
                 payload =
                   (case operation of
                      Translate \<Rightarrow> [(''translatedText'', trim (raw 0))]
                    | Summarize \<Rightarrow>
                        [(''summary'', trim (raw 0)),
                         (''keyPoints'',
                          if property body ''summaryType'' = Some (JStr (lit ''bullets''))
                             \<or> property body ''summaryType'' = Some (JStr (lit ''key''))
                          then trim (raw 0) else trim (raw 1))]
                    | AnalyzeImage \<Rightarrow> [(''description'', trim (raw 0))]
                    | AnalyzeAudio \<Rightarrow> []
                    | GenerateResumeSummary \<Rightarrow> [(''generatedSummary'', trim (raw 0))]
                    | OptimizeSkills \<Rightarrow> [(''optimizedSkills'', trim (raw 0))])\<rparr>)
       \<and> (\<forall>text. \<exists>pre suf.
             text = pre @ trim text @ suf \<and> list_all white_space pre \<and> list_all white_space suf
           \<and> (trim text \<noteq> [] \<longrightarrow>
                \<not> white_space (hd (trim text)) \<and> \<not> white_space (last (trim text))))"
proof -
  have t: "\<forall>text. \<exists>pre suf.
             text = pre @ trim text @ suf \<and> list_all white_space pre \<and> list_all white_space suf
           \<and> (trim text \<noteq> [] \<longrightarrow>
                \<not> white_space (hd (trim text)) \<and> \<not> white_space (last (trim text)))"
    using trimmed by blast
  show ?thesis
  proof (cases operation)
    case Translate
    with assms(2) have h: "translate genAI body = (out, evs)" by simp
    show ?thesis
      using translate_generates [OF h] translate_generated(1) [OF h] translate_generated(2) [OF h, of raw] t by (simp add: Translate)
  next
    case Summarize
    with assms(2) have h: "summarize genAI body = (out, evs)" by simp
    show ?thesis
      using summarize_generates [OF h] summarize_generated(1) [OF h] summarize_generated(2) [OF h, of raw] t
      by (auto simp: Summarize split: if_splits)
  next
    case AnalyzeImage
    with assms(2) have h: "analyze_image genAI body = (out, evs)" by simp
    show ?thesis
      using analyze_image_generates [OF h] analyze_image_generated(1) [OF h] analyze_image_generated(2) [OF h, of raw] t by (simp add: AnalyzeImage)
  next
    case AnalyzeAudio
    with assms(1) show ?thesis by simp
  next
    case GenerateResumeSummary
    with assms(2) have h: "resume_generate_summary genAI body = (out, evs)" by simp
    show ?thesis
      using resume_generate_summary_generates [OF h] resume_generate_summary_generated(1) [OF h] resume_generate_summary_generated(2) [OF h, of raw] t by (simp add: GenerateResumeSummary)
  next
    case OptimizeSkills
    with assms(2) have h: "resume_optimize_skills genAI body = (out, evs)" by simp
    show ?thesis
      using resume_optimize_skills_generates [OF h] resume_optimize_skills_generated(1) [OF h] resume_optimize_skills_generated(2) [OF h, of raw] t by (simp add: OptimizeSkills)
  qed
qed

theorem returned_text_is_trimmed_output_witness:
  "length (calls (snd (handle Summarize numbered_provider brief_request))) = 2
   \<and> fst (handle Summarize numbered_provider brief_request) =
       Responded \<lparr>status = 200,
                  payload = [(''summary'', lit ''first''), (''keyPoints'', lit ''second'')]\<rparr>"
proof -
  have pr: "property brief_request ''text'' = Some (JStr (lit ''Hello''))"
           "property brief_request ''summaryType'' = Some (JStr (lit ''brief''))"
    by (simp_all add: brief_request_def property_def lit_def)
  have ne: "lit ''brief'' \<noteq> lit ''bullets''" "lit ''brief'' \<noteq> lit ''key''" "lit ''Hello'' \<noteq> []"
    "lit ''brief'' \<noteq> []"
    by (simp_all add: lit_def)
  have tr: "trim (lit '' first '') = lit ''first''" "trim (lit '' second\<newline>'') = lit ''second''"
    by (simp_all add: trim_def white_space_def lit_def)
  have e: "handle Summarize numbered_provider brief_request =
             (fst (handle Summarize numbered_provider brief_request),
              snd (handle Summarize numbered_provider brief_request))"
    by simp
  have c: "calls (snd (handle Summarize numbered_provider brief_request)) \<noteq> []"
    by (simp add: summarize_def Let_def pr ne summary_prompt_def keyPointsPrompt_def
        numbered_provider_def calls_def)
  have r: "\<forall>n < length (calls (snd (handle Summarize numbered_provider brief_request))).
             numbered_provider n (calls (snd (handle Summarize numbered_provider brief_request)) ! n)
               = Inr (if n = 0 then lit '' first '' else lit '' second\<newline>'')"
    by (simp add: numbered_provider_def)
  show ?thesis
    using returned_text_is_trimmed_output
      [OF _ e, of "\<lambda>n. if n = 0 then lit '' first '' else lit '' second\<newline>''",
       THEN conjunct2, THEN conjunct2, THEN conjunct1, rule_format, OF _ conjI, OF _ c r]
    by (simp add: pr ne tr)
qed

section \<open>Prompts depend on the input fields only\<close>

text \<open>
  C6. The prompts of a handler are determined by the fields it reads: two requests that
  agree on these fields send, generation by generation, the same prompt, code unit for
  code unit, whatever else the bodies hold and whatever the provider answered.
\<close>

theorem prompt_building_deterministic:
  assumes "\<forall>f \<in> set (input_fields operation). property body1 f = property body2 f"
    and "n < length (calls (snd (handle operation genAI1 body1)))"
    and "n < length (calls (snd (handle operation genAI2 body2)))"
  shows "prompt (calls (snd (handle operation genAI1 body1)) ! n)
       = prompt (calls (snd (handle operation genAI2 body2)) ! n)"
proof (cases operation)
  case Translate
  then show ?thesis using assms
    by (auto simp: translate_def Let_def bad_request_def caught_def calls_def
        split: if_splits sum.splits)
next
  case Summarize
  then show ?thesis using assms
    by (auto simp: summarize_def Let_def bad_request_def caught_def calls_def less_Suc_eq nth_Cons'
        split: if_splits sum.splits)
next
  case AnalyzeImage
  then show ?thesis using assms
    by (auto simp: analyze_image_def Let_def bad_request_def caught_def calls_def
        split: if_splits sum.splits)
next
  case AnalyzeAudio
  then show ?thesis using assms
    by (auto simp: analyze_audio_def Let_def calls_def)
next
  case GenerateResumeSummary
  then show ?thesis using assms
    by (auto simp: resume_generate_summary_def Let_def caught_def calls_def
        split: if_splits sum.splits)
next
  case OptimizeSkills
  then show ?thesis using assms
    by (auto simp: resume_optimize_skills_def Let_def caught_def calls_def
        split: if_splits sum.splits)
qed

theorem prompt_building_deterministic_witness:
  "prompt (calls (snd (handle Summarize steady_provider brief_request)) ! 1)
     = prompt (calls (snd (handle Summarize terse_provider annotated_brief_request)) ! 1)"
proof -
  have pr: "property brief_request ''text'' = Some (JStr (lit ''Hello''))"
           "property brief_request ''summaryType'' = Some (JStr (lit ''brief''))"
           "property annotated_brief_request ''text'' = Some (JStr (lit ''Hello''))"
           "property annotated_brief_request ''summaryType'' = Some (JStr (lit ''brief''))"
    by (simp_all add: brief_request_def annotated_brief_request_def property_def lit_def)
  have ne: "lit ''brief'' \<noteq> lit ''bullets''" "lit ''brief'' \<noteq> lit ''key''" "lit ''Hello'' \<noteq> []"
    "lit ''brief'' \<noteq> []"
    by (simp_all add: lit_def)
  have f: "\<forall>f \<in> set (input_fields Summarize).
             property brief_request f = property annotated_brief_request f"
    by (simp add: pr)
  have l1: "1 < length (calls (snd (handle Summarize steady_provider brief_request)))"
    by (simp add: summarize_def Let_def pr ne summary_prompt_def keyPointsPrompt_def
        steady_provider_def calls_def)
  have l2: "1 < length (calls (snd (handle Summarize terse_provider annotated_brief_request)))"
    by (simp add: summarize_def Let_def pr ne summary_prompt_def keyPointsPrompt_def
        terse_provider_def calls_def)
  show ?thesis
    by (rule prompt_building_deterministic [OF f l1 l2])
qed

end
